theory Spec2Isabelle
  imports Main
begin

section \<open>Strings, dates and paths\<close>

text \<open>
  Python strings are modelled as \<open>string\<close>. \<open>startswith\<close> compares the leading
  characters, as \<open>str.startswith\<close> does.
\<close>

definition startswith :: "string \<Rightarrow> string \<Rightarrow> bool" where
  "startswith s p = (take (length p) s = p)"

text \<open>
  \<open>datetime.date\<close>: the three fields of a calendar date. The library only builds dates
  with \<open>1 \<le> year \<le> 9999\<close>, \<open>1 \<le> month \<le> 12\<close> and a day of that month.
\<close>

record date =
  year :: nat
  month :: nat
  day :: nat

definition valid_date :: "date \<Rightarrow> bool" where
  "valid_date d = (1 \<le> year d \<and> year d \<le> 9999 \<and> 1 \<le> month d \<and> month d \<le> 12
                   \<and> 1 \<le> day d \<and> day d \<le> 31)"

definition digit_char :: "nat \<Rightarrow> char" where
  "digit_char n = ''0123456789'' ! (n mod 10)"

fun str_nat :: "nat \<Rightarrow> string" where
  "str_nat n = (if n < 10 then [digit_char n] else str_nat (n div 10) @ [digit_char n])"

declare str_nat.simps [simp del]

definition zfill :: "nat \<Rightarrow> string \<Rightarrow> string" where
  "zfill w s = replicate (w - length s) (CHR ''0'') @ s"

text \<open>\<open>date.isoformat()\<close> is \<open>"%04d-%02d-%02d" % (year, month, day)\<close>.\<close>

definition isoformat :: "date \<Rightarrow> string" where
  "isoformat d = zfill 4 (str_nat (year d)) @ ''-'' @ zfill 2 (str_nat (month d))
                 @ ''-'' @ zfill 2 (str_nat (day d))"

subsection \<open>pathlib on POSIX\<close>

text \<open>
  A \<open>pathlib.Path\<close> on POSIX is its root (\<open>''''\<close>, \<open>''/''\<close> or \<open>''//''\<close>) and the
  list of its components; two paths are equal when both agree. The operations below are
  the library's: \<open>split_sep\<close> is \<open>str.split('/')\<close>, \<open>splitroot\<close> the root that
  \<open>posixpath.splitroot\<close> finds, \<open>parse_path\<close> the constructor \<open>Path(s)\<close> (empty and
  \<open>.\<close> components are dropped, \<open>..\<close> is kept), \<open>joinpath\<close> the operator \<open>/\<close>
  with a string on the right, \<open>str_path\<close> the conversion \<open>str(p)\<close>.
\<close>

record path =
  anchor :: string
  parts :: "string list"

fun split_sep :: "string \<Rightarrow> string list" where
  "split_sep [] = [[]]"
| "split_sep (c # cs) =
     (if c = CHR ''/'' then [] # split_sep cs
      else (case split_sep cs of [] \<Rightarrow> [[c]] | w # ws \<Rightarrow> (c # w) # ws))"

definition components :: "string \<Rightarrow> string list" where
  "components s = filter (\<lambda>x. x \<noteq> [] \<and> x \<noteq> ''.'') (split_sep s)"

definition splitroot :: "string \<Rightarrow> string" where
  "splitroot s =
     (if take 1 s \<noteq> ''/'' then ''''
      else if take 1 (drop 1 s) \<noteq> ''/'' \<or> take 1 (drop 2 s) = ''/'' then ''/''
      else ''//'')"

definition parse_path :: "string \<Rightarrow> path" where
  "parse_path s = \<lparr>anchor = splitroot s, parts = components s\<rparr>"

definition joinpath :: "path \<Rightarrow> string \<Rightarrow> path" where
  "joinpath p s =
     (let q = parse_path s
      in if anchor q \<noteq> [] then q else \<lparr>anchor = anchor p, parts = parts p @ parts q\<rparr>)"

fun intercalate :: "string \<Rightarrow> string list \<Rightarrow> string" where
  "intercalate sep [] = []"
| "intercalate sep [x] = x"
| "intercalate sep (x # y # ys) = x @ sep @ intercalate sep (y # ys)"

definition str_path :: "path \<Rightarrow> string" where
  "str_path p = (if anchor p = [] \<and> parts p = [] then ''.''
                 else anchor p @ intercalate ''/'' (parts p))"

definition parent :: "path \<Rightarrow> path" where
  "parent p = (if parts p = [] then p else p\<lparr>parts := butlast (parts p)\<rparr>)"

definition name :: "path \<Rightarrow> string" where
  "name p = (if parts p = [] then [] else last (parts p))"

section \<open>daily_log_runner.py: the pure functions\<close>

definition normalize_extension :: "string \<Rightarrow> string" where
  "normalize_extension extension =
     (if extension = [] then ''.log''
      else if startswith extension ''.'' then extension else ''.'' @ extension)"

definition normalize_command :: "string list \<Rightarrow> string list" where
  "normalize_command command =
     (if command \<noteq> [] \<and> hd command = ''--'' then tl command else command)"

text \<open>
  \<open>daily_log_path\<close> reads the clock with \<open>datetime.date.today()\<close>; the date it reads
  is the last argument here.
\<close>

definition daily_log_path :: "path \<Rightarrow> string \<Rightarrow> string \<Rightarrow> date \<Rightarrow> path" where
  "daily_log_path log_dir log_prefix log_extension today =
     joinpath log_dir (log_prefix @ ''-'' @ isoformat today @ log_extension)"

section \<open>The world a run acts on\<close>

text \<open>
  Exceptions are values. \<open>KeyboardInterrupt\<close> and \<open>SystemExit\<close> derive from
  \<open>BaseException\<close> only; the others are subclasses of \<open>Exception\<close>.
\<close>

datatype exn = KeyboardInterrupt | SystemExit int | FileNotFoundError | FileExistsError
  | NotADirectoryError | IsADirectoryError | OSError | RuntimeError | ValueError
  | AttributeError | UnicodeDecodeError

definition is_Exception :: "exn \<Rightarrow> bool" where
  "is_Exception e = (case e of KeyboardInterrupt \<Rightarrow> False | SystemExit _ \<Rightarrow> False | _ \<Rightarrow> True)"

datatype outcome = Return int | Raise exn

text \<open>
  The file system as the run sees it: the directories that exist, the regular files with
  the bytes the operating system holds for them, and what the wrapper has printed. The
  root and the current directory (paths without components) always exist. No other
  process changes the file system during the run, and no two paths name the same file.
\<close>

record world =
  dirs :: "path set"
  disk :: "path \<Rightarrow> string option"
  console :: string

definition is_dir :: "world \<Rightarrow> path \<Rightarrow> bool" where
  "is_dir w p = (parts p = [] \<or> p \<in> dirs w)"

definition content :: "world \<Rightarrow> path \<Rightarrow> string" where
  "content w p = (case disk w p of None \<Rightarrow> [] | Some c \<Rightarrow> c)"

text \<open>\<open>os.mkdir\<close>: one directory, whose parent must exist.\<close>

definition os_mkdir :: "world \<Rightarrow> path \<Rightarrow> exn + world" where
  "os_mkdir w p =
     (if is_dir w p \<or> disk w p \<noteq> None then Inl FileExistsError
      else if is_dir w (parent p) then Inr (w\<lparr>dirs := insert p (dirs w)\<rparr>)
      else if disk w (parent p) \<noteq> None then Inl NotADirectoryError
      else Inl FileNotFoundError)"

text \<open>
  \<open>Path.mkdir(parents=..., exist_ok=True)\<close>: try \<open>os.mkdir\<close>; when the parent is
  missing and \<open>parents\<close> is set, make the parent the same way and try again; any other
  \<open>OSError\<close> is swallowed when the path is a directory already. \<open>mkdir_parents\<close>
  recurses over the components, last one first.
\<close>

definition mkdir_exist_ok :: "world \<Rightarrow> path \<Rightarrow> exn + world" where
  "mkdir_exist_ok w p =
     (case os_mkdir w p of
        Inr w' \<Rightarrow> Inr w'
      | Inl e \<Rightarrow> if e \<noteq> FileNotFoundError \<and> is_dir w p then Inr w else Inl e)"

fun mkdir_parents :: "world \<Rightarrow> string \<Rightarrow> string list \<Rightarrow> exn + world" where
  "mkdir_parents w a [] = mkdir_exist_ok w \<lparr>anchor = a, parts = []\<rparr>"
| "mkdir_parents w a (n # rs) =
     (let p = \<lparr>anchor = a, parts = rev (n # rs)\<rparr>
      in case os_mkdir w p of
           Inr w' \<Rightarrow> Inr w'
         | Inl e \<Rightarrow>
             if e = FileNotFoundError
             then (case mkdir_parents w a rs of
                     Inl e' \<Rightarrow> Inl e'
                   | Inr w' \<Rightarrow> mkdir_exist_ok w' p)
             else if is_dir w p then Inr w else Inl e)"

definition mkdir :: "world \<Rightarrow> path \<Rightarrow> exn + world" where
  "mkdir w p = mkdir_parents w (anchor p) (rev (parts p))"

text \<open>
  A file object made by \<open>open\<close>: its path, the text written and not yet flushed, and
  whether it is still open. \<open>subprocess.Popen\<close>'s object: the pipe \<open>process.stdout\<close>
  (\<open>None\<close> when no pipe was made, else whether it is open), whether \<open>terminate\<close> was
  called, and \<open>returncode\<close>.
\<close>

record file_obj =
  fpath :: path
  fbuf :: string
  fopen :: bool

record process =
  spawned :: bool
  stdout_pipe :: "bool option"
  terminate_sent :: bool
  returncode :: "int option"

record run_state =
  fs :: world
  fobjs :: "file_obj list"
  proc :: process
  current_log_path :: "path option"
  current_log_file :: "nat option"

text \<open>\<open>open(path, "a")\<close> creates the file when it is absent, never a directory.\<close>

definition open_append :: "run_state \<Rightarrow> path \<Rightarrow> exn + (nat \<times> run_state)" where
  "open_append st p =
     (let w = fs st;
          h = \<lparr>fpath = p, fbuf = [], fopen = True\<rparr>
      in if is_dir w p then Inl IsADirectoryError
         else if disk w p \<noteq> None then Inr (length (fobjs st), st\<lparr>fobjs := fobjs st @ [h]\<rparr>)
         else if is_dir w (parent p)
           then Inr (length (fobjs st),
                     st\<lparr>fs := w\<lparr>disk := (disk w)(p \<mapsto> [])\<rparr>, fobjs := fobjs st @ [h]\<rparr>)
         else if disk w (parent p) \<noteq> None then Inl NotADirectoryError
         else Inl FileNotFoundError)"

definition write_file :: "run_state \<Rightarrow> nat \<Rightarrow> string \<Rightarrow> exn + run_state" where
  "write_file st h s =
     (let f = fobjs st ! h
      in if h < length (fobjs st) \<and> fopen f
         then Inr (st\<lparr>fobjs := (fobjs st)[h := f\<lparr>fbuf := fbuf f @ s\<rparr>]\<rparr>)
         else Inl ValueError)"

text \<open>Flushing appends the buffered text to the end of the file (append mode).\<close>

definition push_buffer :: "run_state \<Rightarrow> nat \<Rightarrow> run_state" where
  "push_buffer st h =
     (let f = fobjs st ! h; w = fs st
      in st\<lparr>fs := w\<lparr>disk := (disk w)(fpath f \<mapsto> content w (fpath f) @ fbuf f)\<rparr>,
            fobjs := (fobjs st)[h := f\<lparr>fbuf := []\<rparr>]\<rparr>)"

definition flush_file :: "run_state \<Rightarrow> nat \<Rightarrow> exn + run_state" where
  "flush_file st h =
     (if h < length (fobjs st) \<and> fopen (fobjs st ! h) then Inr (push_buffer st h)
      else Inl ValueError)"

text \<open>\<open>close\<close> flushes and then closes; on a closed file it does nothing.\<close>

definition close_file :: "run_state \<Rightarrow> nat \<Rightarrow> run_state" where
  "close_file st h =
     (if h < length (fobjs st) \<and> fopen (fobjs st ! h)
      then (let st' = push_buffer st h
            in st'\<lparr>fobjs := (fobjs st')[h := (fobjs st' ! h)\<lparr>fopen := False\<rparr>]\<rparr>)
      else st)"

section \<open>run_with_daily_logs\<close>

text \<open>
  What the environment does during one run is fixed by a scenario: what \<open>Popen\<close>
  raises if the launch fails, whether a pipe was made, the lines the wrapper reads from
  the child, each with the date the clock shows while it is processed, how the stream
  ends (end of file, or an exception raised in the blocking read, \<open>KeyboardInterrupt\<close>
  for an interruption), whether the child is still running when the handler polls it,
  and the exit statuses the child ends with by itself and after \<open>terminate\<close>.
  A line may carry an I/O failure: the call of that stage raises \<open>OSError\<close> when the
  iteration reaches it, before it has any effect. Interruptions arrive in the read only.
\<close>

datatype stage = AtOpen | AtWrite | AtFlush | AtEcho

record line_event =
  today :: date
  content_of :: string
  fault :: "stage option"

datatype ending = Eof | ReadRaises exn

record scenario =
  launch_error :: "exn option"
  stdout_captured :: bool
  stream :: "line_event list"
  ending :: ending
  still_running :: bool
  exit_status :: int
  term_status :: int

record params =
  command :: "string list"
  log_dir :: path
  log_prefix :: string
  log_extension :: string
  echo :: bool

definition target_of :: "params \<Rightarrow> line_event \<Rightarrow> path" where
  "target_of P ev = daily_log_path (log_dir P) (log_prefix P) (log_extension P) (today ev)"

text \<open>Lines 85 to 89: the switch of files when the target differs from the current path.\<close>

definition rotate :: "path \<Rightarrow> stage option \<Rightarrow> run_state \<Rightarrow> exn option \<times> run_state" where
  "rotate target_path flt st =
     (if Some target_path \<noteq> current_log_path st
      then (let st1 = (case current_log_file st of
                         Some h \<Rightarrow> close_file st h
                       | None \<Rightarrow> st)
            in if flt = Some AtOpen then (Some OSError, st1)
               else (case open_append st1 target_path of
                       Inl e \<Rightarrow> (Some e, st1)
                     | Inr (h, st2) \<Rightarrow>
                         (None, st2\<lparr>current_log_path := Some target_path,
                                    current_log_file := Some h\<rparr>)))
      else (None, st))"

text \<open>Lines 91 to 96: write, flush, and the echo to the wrapper's own output.\<close>

definition emit :: "bool \<Rightarrow> line_event \<Rightarrow> run_state \<Rightarrow> exn option \<times> run_state" where
  "emit ech ev st =
     (case current_log_file st of
        None \<Rightarrow> (Some AttributeError, st)
      | Some h \<Rightarrow>
          if fault ev = Some AtWrite then (Some OSError, st)
          else (case write_file st h (content_of ev) of
                  Inl e \<Rightarrow> (Some e, st)
                | Inr st1 \<Rightarrow>
                    if fault ev = Some AtFlush then (Some OSError, st1)
                    else (case flush_file st1 h of
                            Inl e \<Rightarrow> (Some e, st1)
                          | Inr st2 \<Rightarrow>
                              if ech
                              then (if fault ev = Some AtEcho then (Some OSError, st2)
                                    else (None, st2\<lparr>fs := (fs st2)\<lparr>console :=
                                                  console (fs st2) @ content_of ev\<rparr>\<rparr>))
                              else (None, st2))))"

text \<open>One pass of the loop body, lines 84 to 96.\<close>

definition iteration :: "params \<Rightarrow> line_event \<Rightarrow> run_state \<Rightarrow> exn option \<times> run_state" where
  "iteration P ev st =
     (case rotate (target_of P ev) (fault ev) st of
        (Some e, st1) \<Rightarrow> (Some e, st1)
      | (None, st1) \<Rightarrow> emit (echo P) ev st1)"

fun read_loop :: "params \<Rightarrow> line_event list \<Rightarrow> run_state \<Rightarrow> exn option \<times> run_state" where
  "read_loop P [] st = (None, st)"
| "read_loop P (ev # evs) st =
     (case iteration P ev st of
        (Some e, st1) \<Rightarrow> (Some e, st1)
      | (None, st1) \<Rightarrow> read_loop P evs st1)"

definition process_wait :: "scenario \<Rightarrow> run_state \<Rightarrow> int \<times> run_state" where
  "process_wait sc st =
     (let c = (case returncode (proc st) of
                 Some c \<Rightarrow> c
               | None \<Rightarrow> if terminate_sent (proc st) then term_status sc else exit_status sc)
      in (c, st\<lparr>proc := (proc st)\<lparr>returncode := Some c\<rparr>\<rparr>))"

definition process_poll :: "scenario \<Rightarrow> run_state \<Rightarrow> int option \<times> run_state" where
  "process_poll sc st =
     (case returncode (proc st) of
        Some c \<Rightarrow> (Some c, st)
      | None \<Rightarrow> if still_running sc then (None, st)
                else (Some (exit_status sc),
                      st\<lparr>proc := (proc st)\<lparr>returncode := Some (exit_status sc)\<rparr>\<rparr>))"

definition process_terminate :: "run_state \<Rightarrow> run_state" where
  "process_terminate st =
     (if returncode (proc st) = None then st\<lparr>proc := (proc st)\<lparr>terminate_sent := True\<rparr>\<rparr>
      else st)"

text \<open>The body of \<open>try\<close>, lines 80 to 98.\<close>

definition try_body :: "params \<Rightarrow> scenario \<Rightarrow> run_state \<Rightarrow> outcome \<times> run_state" where
  "try_body P sc st =
     (if stdout_pipe (proc st) = None then (Raise RuntimeError, st)
      else (case read_loop P (stream sc) st of
              (Some e, st1) \<Rightarrow> (Raise e, st1)
            | (None, st1) \<Rightarrow>
                (case ending sc of
                   ReadRaises e \<Rightarrow> (Raise e, st1)
                 | Eof \<Rightarrow> (let (c, st2) = process_wait sc st1 in (Return c, st2)))))"

text \<open>\<open>except KeyboardInterrupt\<close>, lines 99 to 103.\<close>

definition on_interrupt :: "scenario \<Rightarrow> run_state \<Rightarrow> outcome \<times> run_state" where
  "on_interrupt sc st =
     (let (polled, st1) = process_poll sc st
      in if polled = None
         then (let (c, st2) = process_wait sc (process_terminate st1) in (Return 130, st2))
         else (Return 130, st1))"

text \<open>\<open>finally\<close>, lines 104 to 108.\<close>

definition cleanup :: "run_state \<Rightarrow> run_state" where
  "cleanup st =
     (let st1 = (case stdout_pipe (proc st) of
                   Some b \<Rightarrow> st\<lparr>proc := (proc st)\<lparr>stdout_pipe := Some False\<rparr>\<rparr>
                 | None \<Rightarrow> st)
      in case current_log_file st1 of
           Some h \<Rightarrow> close_file st1 h
         | None \<Rightarrow> st1)"

definition no_process :: process where
  "no_process = \<lparr>spawned = False, stdout_pipe = None, terminate_sent = False,
                 returncode = None\<rparr>"

definition popen :: "scenario \<Rightarrow> process" where
  "popen sc = \<lparr>spawned = True,
               stdout_pipe = (if stdout_captured sc then Some True else None),
               terminate_sent = False, returncode = None\<rparr>"

definition start_state :: "world \<Rightarrow> process \<Rightarrow> run_state" where
  "start_state w pr = \<lparr>fs = w, fobjs = [], proc = pr, current_log_path = None,
                       current_log_file = None\<rparr>"

definition run_with_daily_logs :: "params \<Rightarrow> scenario \<Rightarrow> world \<Rightarrow> outcome \<times> run_state" where
  "run_with_daily_logs P sc w =
     (case mkdir w (log_dir P) of
        Inl e \<Rightarrow> (Raise e, start_state w no_process)
      | Inr w1 \<Rightarrow>
          (case launch_error sc of
             Some e \<Rightarrow> (Raise e, start_state w1 no_process)
           | None \<Rightarrow>
               (let (r, st1) = try_body P sc (start_state w1 (popen sc));
                    (r', st2) = (if r = Raise KeyboardInterrupt then on_interrupt sc st1
                                 else (r, st1))
                in (r', cleanup st2))))"

section \<open>main\<close>

text \<open>
  The parsed arguments. \<open>parser.error\<close> leaves with \<open>SystemExit(2)\<close>. The path
  \<open>args.log_dir.expanduser().resolve()\<close> depends on the file system and the user; the
  result is the field \<open>resolved_log_dir\<close>. The messages \<open>main\<close> prints for an
  exception are not part of the model.
\<close>

record args =
  arg_command :: "string list"
  resolved_log_dir :: path
  arg_log_prefix :: string
  arg_log_extension :: string
  arg_echo :: bool

definition main :: "args \<Rightarrow> scenario \<Rightarrow> world \<Rightarrow> outcome \<times> run_state" where
  "main a sc w =
     (let cmd = normalize_command (arg_command a)
      in if cmd = [] then (Raise (SystemExit 2), start_state w no_process)
         else (let extension = normalize_extension (arg_log_extension a)
               in case run_with_daily_logs
                         \<lparr>command = cmd, log_dir = resolved_log_dir a,
                          log_prefix = arg_log_prefix a, log_extension = extension,
                          echo = arg_echo a\<rparr> sc w of
                    (Raise e, st) \<Rightarrow>
                      if e = FileNotFoundError then (Return 1, st)
                      else if is_Exception e then (Return 1, st)
                      else (Raise e, st)
                  | (Return c, st) \<Rightarrow> (Return c, st)))"

section \<open>Facts about dates and paths\<close>

lemma digit_char_cases:
  "digit_char n \<in> set ''0123456789''"
proof -
  have "n mod 10 = 0 \<or> n mod 10 = 1 \<or> n mod 10 = 2 \<or> n mod 10 = 3 \<or> n mod 10 = 4
      \<or> n mod 10 = 5 \<or> n mod 10 = 6 \<or> n mod 10 = 7 \<or> n mod 10 = 8 \<or> n mod 10 = 9"
    by presburger
  then show ?thesis unfolding digit_char_def by auto
qed

lemma digit_char_not_sep: "digit_char n \<noteq> CHR ''/''"
  using digit_char_cases [of n] by auto

lemma str_nat_no_sep: "CHR ''/'' \<notin> set (str_nat n)"
proof (induction n rule: str_nat.induct)
  case (1 n)
  show ?case
  proof (cases "n < 10")
    case True
    then show ?thesis using digit_char_not_sep [of n] by (simp add: str_nat.simps [of n])
  next
    case False
    then show ?thesis using 1 digit_char_not_sep [of n] by (simp add: str_nat.simps [of n])
  qed
qed

lemma zfill_no_sep: "CHR ''/'' \<notin> set s \<Longrightarrow> CHR ''/'' \<notin> set (zfill w s)"
  by (auto simp: zfill_def)

lemma isoformat_no_sep: "CHR ''/'' \<notin> set (isoformat d)"
  by (simp add: isoformat_def zfill_no_sep str_nat_no_sep)

lemma split_sep_plain: "CHR ''/'' \<notin> set s \<Longrightarrow> split_sep s = [s]"
  by (induction s) auto

lemma splitroot_plain: "CHR ''/'' \<notin> set s \<Longrightarrow> splitroot s = []"
  by (cases s) (auto simp: splitroot_def)

lemma intercalate_snoc:
  "ps \<noteq> [] \<Longrightarrow> intercalate sep (ps @ [n]) = intercalate sep ps @ sep @ n"
  by (induction sep ps rule: intercalate.induct) auto

lemma replicate_zeros:
  "replicate 3 c = [c, c, c]" "replicate 2 c = [c, c]"
  by (simp_all add: numeral_3_eq_3 numeral_2_eq_2)

lemma str_nat_digit: "n < 10 \<Longrightarrow> str_nat n = [digit_char n]"
  by (simp add: str_nat.simps [of n])

lemma str_nat_step: "10 \<le> n \<Longrightarrow> str_nat n = str_nat (n div 10) @ [digit_char n]"
  by (simp add: str_nat.simps [of n])

lemma digit_char_zero: "digit_char 0 = CHR ''0''"
  by (simp add: digit_char_def)

lemma str_nat_small:
  assumes "n < 10000"
  shows "zfill 4 (str_nat n) =
           [digit_char (n div 1000), digit_char (n div 100), digit_char (n div 10), digit_char n]"
proof -
  have b: "n div 10 div 10 = n div 100" "n div 100 div 10 = n div 1000"
    by (simp_all add: div_mult2_eq)
  consider "n < 10" | "10 \<le> n" "n < 100" | "100 \<le> n" "n < 1000" | "1000 \<le> n" "n < 10000"
    using assms by linarith
  then show ?thesis
  proof cases
    case 1
    then show ?thesis by (simp add: str_nat_digit zfill_def digit_char_zero replicate_zeros)
  next
    case 2
    then have "str_nat n = [digit_char (n div 10), digit_char n]"
      by (simp add: str_nat_step str_nat_digit)
    with 2 show ?thesis by (simp add: zfill_def digit_char_zero replicate_zeros)
  next
    case 3
    then have "str_nat (n div 10) = [digit_char (n div 100), digit_char (n div 10)]"
      using b by (simp add: str_nat_step [of "n div 10"] str_nat_digit)
    with 3 have "str_nat n = [digit_char (n div 100), digit_char (n div 10), digit_char n]"
      by (simp add: str_nat_step [of n])
    with 3 show ?thesis by (simp add: zfill_def digit_char_zero)
  next
    case 4
    then have "str_nat (n div 100) = [digit_char (n div 1000), digit_char (n div 100)]"
      using b by (simp add: str_nat_step [of "n div 100"] str_nat_digit)
    with 4 have "str_nat (n div 10) =
        [digit_char (n div 1000), digit_char (n div 100), digit_char (n div 10)]"
      using b by (simp add: str_nat_step [of "n div 10"])
    with 4 have "str_nat n =
        [digit_char (n div 1000), digit_char (n div 100), digit_char (n div 10), digit_char n]"
      by (simp add: str_nat_step [of n])
    then show ?thesis by (simp add: zfill_def)
  qed
qed

lemma str_nat_two:
  assumes "n < 100"
  shows "zfill 2 (str_nat n) = [digit_char (n div 10), digit_char n]"
proof (cases "n < 10")
  case True
  then show ?thesis by (simp add: str_nat_digit zfill_def digit_char_zero)
next
  case False
  then have "str_nat n = [digit_char (n div 10), digit_char n]"
    using assms by (simp add: str_nat_step str_nat_digit)
  then show ?thesis by (simp add: zfill_def)
qed

lemma isoformat_valid:
  assumes "valid_date d"
  shows "isoformat d =
     [digit_char (year d div 1000), digit_char (year d div 100), digit_char (year d div 10),
      digit_char (year d), CHR ''-'', digit_char (month d div 10), digit_char (month d),
      CHR ''-'', digit_char (day d div 10), digit_char (day d)]"
proof -
  from assms have "year d < 10000" "month d < 100" "day d < 100"
    by (simp_all add: valid_date_def)
  then show ?thesis by (simp add: isoformat_def str_nat_small str_nat_two)
qed

lemma intercalate_two:
  "intercalate sep (x # y # ys) = x @ sep @ intercalate sep (y # ys)"
  by simp

lemma log_name_component:
  assumes "CHR ''/'' \<notin> set prefix" and "CHR ''/'' \<notin> set extension"
  shows "parse_path (prefix @ ''-'' @ isoformat d @ extension) =
           \<lparr>anchor = [], parts = [prefix @ ''-'' @ isoformat d @ extension]\<rparr>"
proof -
  let ?n = "prefix @ ''-'' @ isoformat d @ extension"
  have plain: "CHR ''/'' \<notin> set ?n"
    using assms isoformat_no_sep [of d] by simp
  have dash: "CHR ''-'' \<in> set ?n" by simp
  have "?n \<noteq> ''.''"
  proof
    assume e: "?n = ''.''"
    from dash have "CHR ''-'' \<in> set ''.''" by (simp only: e)
    then show False by simp
  qed
  moreover have "?n \<noteq> []" by simp
  ultimately have "components ?n = [?n]"
    using split_sep_plain [OF plain] by (simp add: components_def)
  then show ?thesis
    using splitroot_plain [OF plain] by (simp add: parse_path_def)
qed

lemma daily_log_path_plain:
  assumes "CHR ''/'' \<notin> set prefix" and "CHR ''/'' \<notin> set extension"
  shows "daily_log_path dir prefix extension d =
           \<lparr>anchor = anchor dir,
            parts = parts dir @ [prefix @ ''-'' @ isoformat d @ extension]\<rparr>"
  using log_name_component [OF assms, of d] by (simp add: daily_log_path_def joinpath_def)

section \<open>The pure functions of daily_log_runner.py\<close>

text \<open>
  C7, as the code has it. When neither the prefix nor the extension contains the
  separator \<open>/\<close>, the path computed for a date is the directory extended by the one
  component \<open><prefix>-<date><extension>\<close>: its parent is the directory, its name is
  that component, and for a directory with at least one component its text is the
  directory's text, \<open>/\<close>, and the name. The date is written as four digits of the
  year, two of the month and two of the day, joined by \<open>-\<close>. Prefix \<open>job\<close> with the
  default extension in \<open>/tmp/logs\<close> on 2024-01-01 gives
  \<open>/tmp/logs/job-2024-01-01.log\<close>. A prefix or an extension with a \<open>/\<close> is outside
  this statement: the join treats it as path syntax.
\<close>

theorem daily_log_path_in_directory:
  assumes "CHR ''/'' \<notin> set prefix" and "CHR ''/'' \<notin> set extension"
  shows "(let fname = prefix @ ''-'' @ isoformat d @ extension;
              p = daily_log_path dir prefix extension d
          in parent p = dir \<and> name p = fname
             \<and> (parts dir \<noteq> [] \<longrightarrow> str_path p = str_path dir @ ''/'' @ fname)
             \<and> (valid_date d \<longrightarrow> isoformat d =
                   [digit_char (year d div 1000), digit_char (year d div 100),
                    digit_char (year d div 10), digit_char (year d), CHR ''-'',
                    digit_char (month d div 10), digit_char (month d), CHR ''-'',
                    digit_char (day d div 10), digit_char (day d)]))
         \<and> str_path (daily_log_path (parse_path ''/tmp/logs'') ''job''
                        (normalize_extension ''.log'') \<lparr>year = 2024, month = 1, day = 1\<rparr>)
             = ''/tmp/logs/job-2024-01-01.log''"
proof -
  let ?fname = "prefix @ ''-'' @ isoformat d @ extension"
  let ?p = "daily_log_path dir prefix extension d"
  have p: "?p = \<lparr>anchor = anchor dir, parts = parts dir @ [?fname]\<rparr>"
    by (rule daily_log_path_plain [OF assms])
  have a: "parent ?p = dir" by (simp add: p parent_def)
  have b: "name ?p = ?fname" by (simp add: p name_def)
  have c: "parts dir \<noteq> [] \<longrightarrow> str_path ?p = str_path dir @ ''/'' @ ?fname"
    by (simp add: p str_path_def intercalate_snoc)
  have e: "str_path (daily_log_path (parse_path ''/tmp/logs'') ''job''
                       (normalize_extension ''.log'') \<lparr>year = 2024, month = 1, day = 1\<rparr>)
             = ''/tmp/logs/job-2024-01-01.log''"
    by code_simp
  show ?thesis
    using a b c e isoformat_valid [of d] by (simp add: Let_def)
qed

theorem daily_log_path_in_directory_witness:
  "CHR ''/'' \<notin> set ''job'' \<and> CHR ''/'' \<notin> set ''.log''
   \<and> parts (parse_path ''/var/log/app'') \<noteq> []
   \<and> valid_date \<lparr>year = 987, month = 12, day = 31\<rparr>
   \<and> parent (daily_log_path (parse_path ''/var/log/app'') ''job'' ''.log''
               \<lparr>year = 987, month = 12, day = 31\<rparr>) = parse_path ''/var/log/app''
   \<and> str_path (daily_log_path (parse_path ''/var/log/app'') ''job'' ''.log''
                 \<lparr>year = 987, month = 12, day = 31\<rparr>) = ''/var/log/app/job-0987-12-31.log''"
proof -
  have h1: "CHR ''/'' \<notin> set ''job''" and h2: "CHR ''/'' \<notin> set ''.log''" by simp_all
  have h3: "parts (parse_path ''/var/log/app'') \<noteq> []" by code_simp
  have h4: "valid_date \<lparr>year = 987, month = 12, day = 31\<rparr>" by (simp add: valid_date_def)
  have s: "str_path (parse_path ''/var/log/app'') = ''/var/log/app''" by code_simp
  have i: "[digit_char (987 div 1000), digit_char (987 div 100), digit_char (987 div 10),
            digit_char 987, CHR ''-'', digit_char (12 div 10), digit_char 12, CHR ''-'',
            digit_char (31 div 10), digit_char 31] = ''0987-12-31''"
    by (simp add: digit_char_def)
  show ?thesis
    using daily_log_path_in_directory
            [OF h1 h2, of "\<lparr>year = 987, month = 12, day = 31\<rparr>" "parse_path ''/var/log/app''"]
          h1 h2 h3 h4 s i
    by (simp add: Let_def)
qed

text \<open>
  C7 as stated fails for a prefix that starts with \<open>/\<close>: the join discards the
  directory, and the file is not inside it.
\<close>

theorem daily_log_path_absolute_prefix_counterexample:
  "str_path (daily_log_path (parse_path ''/tmp/logs'') ''/job'' ''.log''
               \<lparr>year = 2024, month = 1, day = 1\<rparr>) = ''/job-2024-01-01.log''
   \<and> parent (daily_log_path (parse_path ''/tmp/logs'') ''/job'' ''.log''
               \<lparr>year = 2024, month = 1, day = 1\<rparr>) \<noteq> parse_path ''/tmp/logs''"
  by code_simp

text \<open>
  C8. \<open>normalize_extension\<close> is defined on every string: the empty extension becomes
  \<open>.log\<close>, an extension whose first character is not \<open>.\<close> gets \<open>.\<close> in front, an
  extension that begins with \<open>.\<close> is returned as it is; in every case the result begins
  with \<open>.\<close>.
\<close>

theorem normalize_extension_cases:
  "normalize_extension [] = ''.log''
   \<and> (\<forall>c cs. c \<noteq> CHR ''.'' \<longrightarrow> normalize_extension (c # cs) = CHR ''.'' # c # cs)
   \<and> (\<forall>cs. normalize_extension (CHR ''.'' # cs) = CHR ''.'' # cs)
   \<and> (\<forall>e. startswith (normalize_extension e) ''.'')"
  by (simp add: normalize_extension_def startswith_def)

theorem normalize_extension_cases_witness:
  "CHR ''l'' \<noteq> CHR ''.'' \<and> normalize_extension ''log'' = ''.log''"
proof -
  have h: "CHR ''l'' \<noteq> CHR ''.''" by simp
  from normalize_extension_cases
  have "\<forall>c cs. c \<noteq> CHR ''.'' \<longrightarrow> normalize_extension (c # cs) = CHR ''.'' # c # cs"
    by blast
  with h show ?thesis by simp
qed

text \<open>
  C9. \<open>normalize_command\<close> drops the first element when it is \<open>--\<close> and nothing
  else: the rest of the vector, with any later \<open>--\<close>, is returned as it is, and a
  vector that is empty or starts with another element is returned unchanged.
\<close>

theorem normalize_command_leading_separator:
  "normalize_command (''--'' # rest) = rest
   \<and> (\<forall>c. c = [] \<or> hd c \<noteq> ''--'' \<longrightarrow> normalize_command c = c)"
  by (simp add: normalize_command_def)

theorem normalize_command_leading_separator_witness:
  "normalize_command [''--'', ''--'', ''run''] = [''--'', ''run'']
   \<and> hd [''run'', ''--'', ''x''] \<noteq> ''--''
   \<and> normalize_command [''run'', ''--'', ''x''] = [''run'', ''--'', ''x'']"
proof -
  have h: "hd [''run'', ''--'', ''x''] \<noteq> ''--''" by simp
  from normalize_command_leading_separator [of "[''--'', ''run'']"]
  have a: "normalize_command [''--'', ''--'', ''run''] = [''--'', ''run'']"
    and b: "\<forall>c. c = [] \<or> hd c \<noteq> ''--'' \<longrightarrow> normalize_command c = c"
    by blast+
  from b h have "normalize_command [''run'', ''--'', ''x''] = [''run'', ''--'', ''x'']"
    by blast
  with a h show ?thesis by simp
qed

end
